theory Spec2Isabelle
  imports Main "HOL-Library.Word"
begin

unbundle bit_operations_syntax

section \<open>Authentication and session handlers of nrv.dev-webapp\<close>

text \<open>
  The handlers \<open>signup\<close>, \<open>signin\<close>, \<open>logout\<close>, \<open>checkAuth\<close> and
  \<open>generateInviteCode\<close> (and the CLI's \<open>generateInviteCodeCLI\<close>) are embedded as
  functions from the request and the server state to the response and the new state.
  The server state is the SQLite database (the tables \<open>users\<close> and
  \<open>invitation_codes\<close>) and the package-level map \<open>sessions\<close>. Everything a handler
  reads from outside (the clock, \<open>crypto/rand\<close>, bcrypt, storage failures) is a field
  of the environment \<open>env\<close>.
\<close>

subsection \<open>encoding/base64\<close>

text \<open>
  Go's \<open>base64.StdEncoding\<close> and \<open>base64.URLEncoding\<close> (RFC 4648, both padded with
  \<open>=\<close>), as \<open>Encoding.Encode\<close> computes them: three source bytes give four
  characters; a rest of one or two bytes gives two or three characters and padding.
\<close>

type_synonym byte = "8 word"

record Encoding =
  encode :: string
  padChar :: "char option"

definition encodeStd :: string where
  "encodeStd = ''ABCDEFGHIJKLMNOPQRSTUVWXYZabcdefghijklmnopqrstuvwxyz0123456789+/''"

definition encodeURL :: string where
  "encodeURL = ''ABCDEFGHIJKLMNOPQRSTUVWXYZabcdefghijklmnopqrstuvwxyz0123456789-_''"

definition StdPadding :: char where
  "StdPadding = CHR ''=''"

definition StdEncoding :: Encoding where
  "StdEncoding = \<lparr>encode = encodeStd, padChar = Some StdPadding\<rparr>"

definition URLEncoding :: Encoding where
  "URLEncoding = \<lparr>encode = encodeURL, padChar = Some StdPadding\<rparr>"

definition sextet :: "Encoding \<Rightarrow> 64 word \<Rightarrow> nat \<Rightarrow> char" where
  "sextet enc val n = encode enc ! unat (drop_bit n val AND 0x3F)"

definition pad :: "Encoding \<Rightarrow> nat \<Rightarrow> string" where
  "pad enc n = (case padChar enc of None \<Rightarrow> [] | Some c \<Rightarrow> replicate n c)"

fun EncodeToString :: "Encoding \<Rightarrow> byte list \<Rightarrow> string" where
  "EncodeToString enc (a # b # c # src) =
     (let val = push_bit 16 (ucast a) OR push_bit 8 (ucast b) OR ucast c
      in [sextet enc val 18, sextet enc val 12, sextet enc val 6, sextet enc val 0]
           @ EncodeToString enc src)"
| "EncodeToString enc [a, b] =
     (let val = push_bit 16 (ucast a) OR push_bit 8 (ucast b)
      in [sextet enc val 18, sextet enc val 12, sextet enc val 6] @ pad enc 1)"
| "EncodeToString enc [a] =
     (let val = push_bit 16 (ucast a)
      in [sextet enc val 18, sextet enc val 12] @ pad enc 2)"
| "EncodeToString enc [] = []"

subsection \<open>Data model\<close>

text \<open>\<open>time.Time\<close> and \<open>time.Duration\<close> are counted in nanoseconds.\<close>

type_synonym time = int

definition Hour :: int where
  "Hour = 3600 * 1000000000"

definition sessionDuration :: int where
  "sessionDuration = 24 * Hour"

record session =
  username :: string
  expiry :: time

record Credentials =
  Username :: string
  Password :: string
  InvitationCode :: string

text \<open>
  The two tables the handlers use. Both key columns are \<open>TEXT UNIQUE\<close> and every
  insert binds a Go string, so a table is a partial map from its key column:
  \<open>users\<close> from \<open>username\<close> to \<open>password_hash\<close>, \<open>invitation_codes\<close> from
  \<open>code\<close> to \<open>used\<close>.
\<close>

record database =
  users :: "string \<rightharpoonup> string"
  invitation_codes :: "string \<rightharpoonup> bool"

record state =
  db :: database
  sessions :: "string \<rightharpoonup> session"

datatype statement = SelectUsed | SelectPasswordHash | InsertUser | MarkUsed | InsertCode

datatype sql_error = ErrNoRows | ErrStorage

datatype http_error = ErrNoCookie | ErrMalformed

text \<open>
  The environment of one handler call: \<open>now\<close> is \<open>time.Now()\<close>; \<open>rand_err\<close> and
  \<open>rand_stream\<close> are \<open>crypto/rand\<close> (whether \<open>rand.Read\<close> fails, and the bytes it
  delivers otherwise); \<open>GenerateFromPassword\<close> and \<open>CompareHashAndPassword\<close> are the
  bcrypt package (\<open>None\<close> and \<open>False\<close> stand for a non-nil error);
  \<open>query_err\<close>, \<open>prepare_err\<close> and \<open>exec_err\<close> say which database calls fail for a
  reason outside the tables' contents.
\<close>

record env =
  now :: time
  rand_err :: bool
  rand_stream :: "nat \<Rightarrow> byte"
  GenerateFromPassword :: "string \<Rightarrow> nat \<Rightarrow> string option"
  CompareHashAndPassword :: "string \<Rightarrow> string \<Rightarrow> bool"
  query_err :: "statement \<Rightarrow> bool"
  prepare_err :: "statement \<Rightarrow> bool"
  exec_err :: "statement \<Rightarrow> bool"

datatype status_code =
  StatusOK | StatusCreated | StatusBadRequest | StatusUnauthorized | StatusInternalServerError

record Cookie =
  Name :: string
  Value :: string
  Expires :: time

text \<open>
  What a handler leaves in the \<open>http.ResponseWriter\<close>: the status (200 when
  \<open>WriteHeader\<close> is never called), the cookie set and the JSON object written.
\<close>

record response =
  status :: status_code
  set_cookie :: "Cookie option"
  json :: "(string \<times> string) list option"

definition WriteHeader :: "status_code \<Rightarrow> response" where
  "WriteHeader c = \<lparr>status = c, set_cookie = None, json = None\<rparr>"

definition SetCookie :: "Cookie \<Rightarrow> response" where
  "SetCookie c = \<lparr>status = StatusOK, set_cookie = Some c, json = None\<rparr>"

subsection \<open>Library and database calls\<close>

definition make_bytes :: "nat \<Rightarrow> byte list" where
  "make_bytes n = replicate n 0"

definition rand_Read :: "env \<Rightarrow> byte list \<Rightarrow> byte list option" where
  "rand_Read e b = (if rand_err e then None else Some (map (rand_stream e) [0..<length b]))"

definition bytes_of :: "string \<Rightarrow> byte list" where
  "bytes_of s = map (\<lambda>c. of_nat (of_char c)) s"

definition QueryRow_used :: "env \<Rightarrow> database \<Rightarrow> string \<Rightarrow> sql_error + bool" where
  "QueryRow_used e d c =
     (if query_err e SelectUsed then Inl ErrStorage
      else case invitation_codes d c of None \<Rightarrow> Inl ErrNoRows | Some used \<Rightarrow> Inr used)"

definition QueryRow_password_hash :: "env \<Rightarrow> database \<Rightarrow> string \<Rightarrow> sql_error + string" where
  "QueryRow_password_hash e d u =
     (if query_err e SelectPasswordHash then Inl ErrStorage
      else case users d u of None \<Rightarrow> Inl ErrNoRows | Some h \<Rightarrow> Inr h)"

definition Exec_insert_user :: "env \<Rightarrow> database \<Rightarrow> string \<Rightarrow> string \<Rightarrow> sql_error + database" where
  "Exec_insert_user e d u h =
     (if exec_err e InsertUser \<or> users d u \<noteq> None then Inl ErrStorage
      else Inr (d\<lparr>users := (users d)(u \<mapsto> h)\<rparr>))"

definition Exec_mark_used :: "env \<Rightarrow> database \<Rightarrow> string \<Rightarrow> sql_error + database" where
  "Exec_mark_used e d c =
     (if exec_err e MarkUsed then Inl ErrStorage
      else Inr (case invitation_codes d c of
                  None \<Rightarrow> d
                | Some _ \<Rightarrow> d\<lparr>invitation_codes := (invitation_codes d)(c \<mapsto> True)\<rparr>))"

definition Exec_insert_code :: "env \<Rightarrow> database \<Rightarrow> string \<Rightarrow> bool \<Rightarrow> sql_error + database" where
  "Exec_insert_code e d c used =
     (if exec_err e InsertCode \<or> invitation_codes d c \<noteq> None then Inl ErrStorage
      else Inr (d\<lparr>invitation_codes := (invitation_codes d)(c \<mapsto> used)\<rparr>))"

subsection \<open>The handlers\<close>

definition isExpired :: "env \<Rightarrow> session \<Rightarrow> bool" where
  "isExpired e s = (expiry s < now e)"

definition hashPassword :: "env \<Rightarrow> string \<Rightarrow> string option" where
  "hashPassword e password = GenerateFromPassword e password 14"

definition checkPasswordHash :: "env \<Rightarrow> string \<Rightarrow> string \<Rightarrow> bool" where
  "checkPasswordHash e password hash = CompareHashAndPassword e hash password"

definition signup :: "env \<Rightarrow> Credentials option \<Rightarrow> state \<Rightarrow> response \<times> state" where
  "signup e body st =
     (case body of
        None \<Rightarrow> (WriteHeader StatusBadRequest, st)
      | Some creds \<Rightarrow>
          (case QueryRow_used e (db st) (InvitationCode creds) of
             Inl ErrNoRows \<Rightarrow> (WriteHeader StatusUnauthorized, st)
           | Inl ErrStorage \<Rightarrow> (WriteHeader StatusInternalServerError, st)
           | Inr used \<Rightarrow>
               if used then (WriteHeader StatusUnauthorized, st)
               else
                 (case hashPassword e (Password creds) of
                    None \<Rightarrow> (WriteHeader StatusInternalServerError, st)
                  | Some hashedPassword \<Rightarrow>
                      if prepare_err e InsertUser then (WriteHeader StatusInternalServerError, st)
                      else
                        (case Exec_insert_user e (db st) (Username creds) hashedPassword of
                           Inl _ \<Rightarrow> (WriteHeader StatusInternalServerError, st)
                         | Inr d1 \<Rightarrow>
                             if prepare_err e MarkUsed
                             then (WriteHeader StatusInternalServerError, st\<lparr>db := d1\<rparr>)
                             else
                               (case Exec_mark_used e d1 (InvitationCode creds) of
                                  Inl _ \<Rightarrow> (WriteHeader StatusInternalServerError, st\<lparr>db := d1\<rparr>)
                                | Inr d2 \<Rightarrow> (WriteHeader StatusCreated, st\<lparr>db := d2\<rparr>))))))"

text \<open>
  In \<open>signin\<close> the token is the encoding of 32 zero bytes; \<open>rand.Read\<close> is then given
  \<open>[]byte(sessionToken)\<close>, a fresh copy of the string's bytes, so what it reads is
  dropped and only its error is looked at.
\<close>

definition signin :: "env \<Rightarrow> Credentials option \<Rightarrow> state \<Rightarrow> response \<times> state" where
  "signin e body st =
     (case body of
        None \<Rightarrow> (WriteHeader StatusBadRequest, st)
      | Some creds \<Rightarrow>
          (case QueryRow_password_hash e (db st) (Username creds) of
             Inl ErrNoRows \<Rightarrow> (WriteHeader StatusUnauthorized, st)
           | Inl ErrStorage \<Rightarrow> (WriteHeader StatusInternalServerError, st)
           | Inr hashedPassword \<Rightarrow>
               if \<not> checkPasswordHash e (Password creds) hashedPassword
               then (WriteHeader StatusUnauthorized, st)
               else
                 (let sessionToken = EncodeToString StdEncoding (make_bytes 32) in
                  case rand_Read e (bytes_of sessionToken) of
                    None \<Rightarrow> (WriteHeader StatusInternalServerError, st)
                  | Some _ \<Rightarrow>
                      (let expiresAt = now e + sessionDuration in
                       (SetCookie \<lparr>Name = ''session_token'', Value = sessionToken,
                                   Expires = expiresAt\<rparr>,
                        st\<lparr>sessions := (sessions st)(sessionToken \<mapsto>
                             \<lparr>username = Username creds, expiry = expiresAt\<rparr>)\<rparr>)))))"

definition logout :: "env \<Rightarrow> http_error + string \<Rightarrow> state \<Rightarrow> response \<times> state" where
  "logout e c st =
     (case c of
        Inl ErrNoCookie \<Rightarrow> (WriteHeader StatusUnauthorized, st)
      | Inl ErrMalformed \<Rightarrow> (WriteHeader StatusBadRequest, st)
      | Inr sessionToken \<Rightarrow>
          (SetCookie \<lparr>Name = ''session_token'', Value = '''', Expires = now e\<rparr>,
           st\<lparr>sessions := (sessions st)(sessionToken := None)\<rparr>))"

definition checkAuth :: "env \<Rightarrow> http_error + string \<Rightarrow> state \<Rightarrow> response \<times> state" where
  "checkAuth e c st =
     (case c of
        Inl ErrNoCookie \<Rightarrow> (WriteHeader StatusUnauthorized, st)
      | Inl ErrMalformed \<Rightarrow> (WriteHeader StatusBadRequest, st)
      | Inr sessionToken \<Rightarrow>
          (case sessions st sessionToken of
             None \<Rightarrow> (WriteHeader StatusUnauthorized, st)
           | Some userSession \<Rightarrow>
               if isExpired e userSession
               then (WriteHeader StatusUnauthorized,
                     st\<lparr>sessions := (sessions st)(sessionToken := None)\<rparr>)
               else (WriteHeader StatusOK, st)))"

definition generateInviteCode :: "env \<Rightarrow> state \<Rightarrow> response \<times> state" where
  "generateInviteCode e st =
     (case rand_Read e (make_bytes 16) of
        None \<Rightarrow> (WriteHeader StatusInternalServerError, st)
      | Some b \<Rightarrow>
          (let code = EncodeToString URLEncoding b in
           if prepare_err e InsertCode then (WriteHeader StatusInternalServerError, st)
           else
             (case Exec_insert_code e (db st) code False of
                Inl _ \<Rightarrow> (WriteHeader StatusInternalServerError, st)
              | Inr d1 \<Rightarrow>
                  (\<lparr>status = StatusOK, set_cookie = None, json = Some [(''code'', code)]\<rparr>,
                   st\<lparr>db := d1\<rparr>))))"

text \<open>
  The CLI command ends the process with \<open>log.Fatal\<close> where the HTTP handler answers
  500; otherwise it prints the code.
\<close>

datatype fatal = Fatal

definition generateInviteCodeCLI :: "env \<Rightarrow> state \<Rightarrow> fatal + string \<times> state" where
  "generateInviteCodeCLI e st =
     (case rand_Read e (make_bytes 16) of
        None \<Rightarrow> Inl Fatal
      | Some b \<Rightarrow>
          (let code = EncodeToString URLEncoding b in
           if prepare_err e InsertCode then Inl Fatal
           else
             (case Exec_insert_code e (db st) code False of
                Inl _ \<Rightarrow> Inl Fatal
              | Inr d1 \<Rightarrow> Inr (''Invitation code: '' @ code @ [CHR 0x0A], st\<lparr>db := d1\<rparr>))))"

subsection \<open>A sample environment and state\<close>

text \<open>
  Concrete inputs at which the theorems below are instantiated: a clock at 1000, a random
  source that delivers 0, 1, 2, ..., a stand-in for bcrypt that prefixes the password, no
  storage failure; two users, one unused and one used invitation code, one session that
  expires exactly now and one that expired a nanosecond ago.
\<close>

definition demo_env :: env where
  "demo_env = \<lparr>now = 1000, rand_err = False, rand_stream = of_nat,
     GenerateFromPassword = (\<lambda>p c. Some (''$2a$'' @ p)),
     CompareHashAndPassword = (\<lambda>h p. h = ''$2a$'' @ p),
     query_err = (\<lambda>_. False), prepare_err = (\<lambda>_. False), exec_err = (\<lambda>_. False)\<rparr>"

definition demo_state :: state where
  "demo_state =
     \<lparr>db = \<lparr>users = [''alice'' \<mapsto> ''$2a$wonderland'', ''bob'' \<mapsto> ''$2a$builder''],
             invitation_codes = [''inv1'' \<mapsto> False, ''inv0'' \<mapsto> True]\<rparr>,
      sessions = [''tok'' \<mapsto> \<lparr>username = ''alice'', expiry = 1000\<rparr>,
                  ''old'' \<mapsto> \<lparr>username = ''bob'', expiry = 999\<rparr>]\<rparr>"

definition alice :: Credentials where
  "alice = \<lparr>Username = ''alice'', Password = ''wonderland'', InvitationCode = ''''\<rparr>"

definition bob :: Credentials where
  "bob = \<lparr>Username = ''bob'', Password = ''builder'', InvitationCode = ''''\<rparr>"

definition carol :: Credentials where
  "carol = \<lparr>Username = ''carol'', Password = ''secret'', InvitationCode = ''inv1''\<rparr>"

section \<open>Properties\<close>

subsection \<open>Base64\<close>

lemma sextet_in_alphabet:
  assumes "length (encode enc) = 64"
  shows "sextet enc val n \<in> set (encode enc)"
proof -
  have "unat (drop_bit n val AND 0x3F) \<le> unat (0x3F :: 64 word)"
    by (rule word_and_le1 [THEN word_le_nat_alt [THEN iffD1]])
  then have "unat (drop_bit n val AND 0x3F) < 64"
    by simp
  with assms show ?thesis
    by (simp add: sextet_def)
qed

lemma length_EncodeToString:
  "padChar enc = Some p \<Longrightarrow> length (EncodeToString enc src) = 4 * ((length src + 2) div 3)"
proof (induction enc src rule: EncodeToString.induct)
  case (1 enc a b c src)
  have "(length (a # b # c # src) + 2) div 3 = Suc ((length src + 2) div 3)"
    by simp
  with 1 show ?case
    by (simp add: Let_def)
qed (simp_all add: pad_def Let_def)

lemma session_token_literal:
  "EncodeToString StdEncoding (make_bytes 32) = ''AAAAAAAAAAAAAAAAAAAAAAAAAAAAAAAAAAAAAAAAAAA=''"
  by (simp add: make_bytes_def eval_nat_numeral StdEncoding_def encodeStd_def sextet_def
      pad_def StdPadding_def)

subsection \<open>Session tokens\<close>

lemma signin_OK:
  assumes "status (fst (signin e body st)) = StatusOK"
  shows "\<exists>creds. body = Some creds
     \<and> signin e body st =
        (SetCookie \<lparr>Name = ''session_token'', Value = EncodeToString StdEncoding (make_bytes 32),
                    Expires = now e + sessionDuration\<rparr>,
         st\<lparr>sessions := (sessions st)(EncodeToString StdEncoding (make_bytes 32) \<mapsto>
               \<lparr>username = Username creds, expiry = now e + sessionDuration\<rparr>)\<rparr>)"
  using assms
  by (auto simp: signin_def WriteHeader_def Let_def
      split: option.splits sum.splits sql_error.splits if_splits)

lemma signin_demo:
  "users (db st) (Username c) = Some (''$2a$'' @ Password c) \<Longrightarrow>
   signin demo_env (Some c) st =
     (SetCookie \<lparr>Name = ''session_token'', Value = ''AAAAAAAAAAAAAAAAAAAAAAAAAAAAAAAAAAAAAAAAAAA='',
                 Expires = 1000 + sessionDuration\<rparr>,
      st\<lparr>sessions := (sessions st)(''AAAAAAAAAAAAAAAAAAAAAAAAAAAAAAAAAAAAAAAAAAA='' \<mapsto>
               \<lparr>username = Username c, expiry = 1000 + sessionDuration\<rparr>)\<rparr>)"
  by (simp add: signin_def QueryRow_password_hash_def checkPasswordHash_def rand_Read_def
      demo_env_def session_token_literal Let_def)

text \<open>
  C1 (the code departs from it). The claim: any two successful signins issue distinct
  random tokens. In the code the token is fixed before \<open>rand.Read\<close> runs, and what
  \<open>rand.Read\<close> fills is a copy: every successful signin sets the cookie to the same
  44 characters (the encoding of 32 zero bytes), whatever the random source delivers, and
  a second signin overwrites the session entry of the first, so that after the two calls
  the one token in the store belongs to the second user.
\<close>

theorem signin_tokens_coincide:
  assumes "status (fst (signin e1 (Some c1) st)) = StatusOK"
      and "status (fst (signin e2 (Some c2) (snd (signin e1 (Some c1) st)))) = StatusOK"
  shows "map_option Value (set_cookie (fst (signin e1 (Some c1) st))) =
           Some ''AAAAAAAAAAAAAAAAAAAAAAAAAAAAAAAAAAAAAAAAAAA=''
       \<and> map_option Value (set_cookie (fst (signin e2 (Some c2) (snd (signin e1 (Some c1) st))))) =
           Some ''AAAAAAAAAAAAAAAAAAAAAAAAAAAAAAAAAAAAAAAAAAA=''
       \<and> sessions (snd (signin e2 (Some c2) (snd (signin e1 (Some c1) st)))) =
           (sessions st)(''AAAAAAAAAAAAAAAAAAAAAAAAAAAAAAAAAAAAAAAAAAA='' \<mapsto>
              \<lparr>username = Username c2, expiry = now e2 + sessionDuration\<rparr>)"
proof -
  let ?T = "EncodeToString StdEncoding (make_bytes 32)"
  let ?st1 = "snd (signin e1 (Some c1) st)"
  from signin_OK [OF assms(1)]
  have 1: "signin e1 (Some c1) st =
        (SetCookie \<lparr>Name = ''session_token'', Value = ?T, Expires = now e1 + sessionDuration\<rparr>,
         st\<lparr>sessions := (sessions st)(?T \<mapsto>
               \<lparr>username = Username c1, expiry = now e1 + sessionDuration\<rparr>)\<rparr>)"
    by auto
  from signin_OK [OF assms(2)]
  have 2: "signin e2 (Some c2) ?st1 =
        (SetCookie \<lparr>Name = ''session_token'', Value = ?T, Expires = now e2 + sessionDuration\<rparr>,
         ?st1\<lparr>sessions := (sessions ?st1)(?T \<mapsto>
               \<lparr>username = Username c2, expiry = now e2 + sessionDuration\<rparr>)\<rparr>)"
    by auto
  have 3: "sessions ?st1 = (sessions st)(?T \<mapsto>
               \<lparr>username = Username c1, expiry = now e1 + sessionDuration\<rparr>)"
    by (simp add: 1)
  show ?thesis
    unfolding 2 unfolding 3 unfolding 1
    by (simp add: SetCookie_def session_token_literal)
qed

theorem signin_tokens_coincide_witness:
  "status (fst (signin demo_env (Some alice) demo_state)) = StatusOK
   \<and> status (fst (signin demo_env (Some bob) (snd (signin demo_env (Some alice) demo_state))))
       = StatusOK
   \<and> set_cookie (fst (signin demo_env (Some alice) demo_state)) =
       set_cookie (fst (signin demo_env (Some bob) (snd (signin demo_env (Some alice) demo_state))))
   \<and> map_option username
        (sessions (snd (signin demo_env (Some bob) (snd (signin demo_env (Some alice) demo_state))))
           ''AAAAAAAAAAAAAAAAAAAAAAAAAAAAAAAAAAAAAAAAAAA='') = Some ''bob''"
proof -
  let ?T = "''AAAAAAAAAAAAAAAAAAAAAAAAAAAAAAAAAAAAAAAAAAA=''"
  let ?st1 = "snd (signin demo_env (Some alice) demo_state)"
  have a: "signin demo_env (Some alice) demo_state =
     (SetCookie \<lparr>Name = ''session_token'', Value = ?T, Expires = 1000 + sessionDuration\<rparr>,
      demo_state\<lparr>sessions := (sessions demo_state)(?T \<mapsto>
               \<lparr>username = Username alice, expiry = 1000 + sessionDuration\<rparr>)\<rparr>)"
    by (rule signin_demo) (simp add: alice_def demo_state_def)
  have b: "signin demo_env (Some bob) ?st1 =
     (SetCookie \<lparr>Name = ''session_token'', Value = ?T, Expires = 1000 + sessionDuration\<rparr>,
      ?st1\<lparr>sessions := (sessions ?st1)(?T \<mapsto>
               \<lparr>username = Username bob, expiry = 1000 + sessionDuration\<rparr>)\<rparr>)"
    by (rule signin_demo) (simp add: a, simp add: bob_def demo_state_def)
  have sa: "status (fst (signin demo_env (Some alice) demo_state)) = StatusOK"
    by (simp add: a SetCookie_def)
  have sb: "status (fst (signin demo_env (Some bob) ?st1)) = StatusOK"
    by (simp add: b SetCookie_def)
  from signin_tokens_coincide [OF sa sb] sa sb show ?thesis
    unfolding b unfolding a
    by (simp add: bob_def SetCookie_def)
qed

subsection \<open>Signing out and checking a session\<close>

text \<open>
  C2 (amended). The claim: of two signouts in a row with the same token, the first
  succeeds and the second fails Unauthorized. \<open>logout\<close> never looks the token up: with
  the cookie presented, the first call deletes the entry and answers 200 with a cleared
  cookie, and the second call answers 200 as well and leaves the store as the first call
  left it. It answers Unauthorized only when the request carries no cookie.
\<close>

theorem logout_twice:
  "logout e1 (Inr tok) st =
     (SetCookie \<lparr>Name = ''session_token'', Value = '''', Expires = now e1\<rparr>,
      st\<lparr>sessions := (sessions st)(tok := None)\<rparr>)
   \<and> logout e2 (Inr tok) (snd (logout e1 (Inr tok) st)) =
     (SetCookie \<lparr>Name = ''session_token'', Value = '''', Expires = now e2\<rparr>,
      snd (logout e1 (Inr tok) st))
   \<and> status (fst (logout e2 (Inr tok) (snd (logout e1 (Inr tok) st)))) = StatusOK
   \<and> logout e2 (Inl ErrNoCookie) (snd (logout e1 (Inr tok) st)) =
     (WriteHeader StatusUnauthorized, snd (logout e1 (Inr tok) st))"
  by (simp add: logout_def SetCookie_def)

theorem logout_twice_counterexample:
  "status (fst (logout demo_env (Inr ''tok'')
                  (snd (logout demo_env (Inr ''tok'') demo_state)))) \<noteq> StatusUnauthorized"
  by (simp add: logout_def SetCookie_def)

text \<open>
  C3. When \<open>checkAuth\<close> is called with the token of a session whose expiry is before
  the current time, it answers Unauthorized and deletes the entry: the store no longer
  holds the token, and any later \<open>checkAuth\<close> with it answers Unauthorized too.
\<close>

theorem checkAuth_expired_removed:
  assumes "sessions st tok = Some s" and "expiry s < now e"
  shows "checkAuth e (Inr tok) st =
           (WriteHeader StatusUnauthorized, st\<lparr>sessions := (sessions st)(tok := None)\<rparr>)
       \<and> sessions (snd (checkAuth e (Inr tok) st)) tok = None
       \<and> (\<forall>e'. checkAuth e' (Inr tok) (snd (checkAuth e (Inr tok) st)) =
                 (WriteHeader StatusUnauthorized, snd (checkAuth e (Inr tok) st)))"
  using assms by (simp add: checkAuth_def isExpired_def)

theorem checkAuth_expired_removed_witness:
  "sessions demo_state ''old'' = Some \<lparr>username = ''bob'', expiry = 999\<rparr>
   \<and> expiry \<lparr>username = ''bob'', expiry = 999\<rparr> < now demo_env
   \<and> status (fst (checkAuth demo_env (Inr ''old'') demo_state)) = StatusUnauthorized
   \<and> sessions (snd (checkAuth demo_env (Inr ''old'') demo_state)) ''old'' = None"
  using checkAuth_expired_removed
    [of demo_state "''old''" "\<lparr>username = ''bob'', expiry = 999\<rparr>" demo_env]
  by (simp add: demo_state_def demo_env_def WriteHeader_def)

text \<open>
  C10. The comparison of \<open>isExpired\<close> is strict: a session whose expiry equals the
  current time is not expired, \<open>checkAuth\<close> answers 200 and leaves the store as it is;
  a stored session is expired, and \<open>checkAuth\<close> answers Unauthorized, exactly when its
  expiry is strictly before the current time.
\<close>

theorem checkAuth_expiry_strict:
  assumes "sessions st tok = Some s"
  shows "(expiry s = now e \<longrightarrow>
            \<not> isExpired e s \<and> checkAuth e (Inr tok) st = (WriteHeader StatusOK, st))
       \<and> (isExpired e s \<longleftrightarrow> expiry s < now e)
       \<and> (status (fst (checkAuth e (Inr tok) st)) = StatusUnauthorized \<longleftrightarrow> expiry s < now e)"
  using assms by (simp add: checkAuth_def isExpired_def WriteHeader_def)

theorem checkAuth_expiry_strict_witness:
  "sessions demo_state ''tok'' = Some \<lparr>username = ''alice'', expiry = 1000\<rparr>
   \<and> expiry \<lparr>username = ''alice'', expiry = 1000\<rparr> = now demo_env
   \<and> checkAuth demo_env (Inr ''tok'') demo_state = (WriteHeader StatusOK, demo_state)
   \<and> sessions (snd (checkAuth demo_env (Inr ''tok'') demo_state)) ''tok''
       = Some \<lparr>username = ''alice'', expiry = 1000\<rparr>"
  using checkAuth_expiry_strict
    [of demo_state "''tok''" "\<lparr>username = ''alice'', expiry = 1000\<rparr>" demo_env]
  by (simp add: demo_state_def demo_env_def)

subsection \<open>Signing in\<close>

text \<open>
  C5. When the lookup of the user itself does not fail, \<open>signin\<close> with a username that
  is not in \<open>users\<close> and \<open>signin\<close> with a known username and a password that bcrypt
  rejects give the same response (status Unauthorized, no cookie, no body) and the same,
  unchanged state.
\<close>

theorem signin_unknown_user_like_wrong_password:
  assumes "\<not> query_err e1 SelectPasswordHash" and "\<not> query_err e2 SelectPasswordHash"
      and "users (db st) (Username c1) = None"
      and "users (db st) (Username c2) = Some h"
      and "\<not> CompareHashAndPassword e2 h (Password c2)"
  shows "signin e1 (Some c1) st = (WriteHeader StatusUnauthorized, st)
       \<and> signin e2 (Some c2) st = signin e1 (Some c1) st"
  using assms
  by (simp add: signin_def QueryRow_password_hash_def checkPasswordHash_def)

theorem signin_unknown_user_like_wrong_password_witness:
  "\<not> query_err demo_env SelectPasswordHash
   \<and> users (db demo_state) (Username (alice\<lparr>Username := ''carol''\<rparr>)) = None
   \<and> users (db demo_state) (Username (alice\<lparr>Password := ''guess''\<rparr>)) = Some ''$2a$wonderland''
   \<and> \<not> CompareHashAndPassword demo_env ''$2a$wonderland'' (Password (alice\<lparr>Password := ''guess''\<rparr>))
   \<and> signin demo_env (Some (alice\<lparr>Password := ''guess''\<rparr>)) demo_state
       = signin demo_env (Some (alice\<lparr>Username := ''carol''\<rparr>)) demo_state
   \<and> status (fst (signin demo_env (Some (alice\<lparr>Password := ''guess''\<rparr>)) demo_state))
       = StatusUnauthorized"
  using signin_unknown_user_like_wrong_password
    [of demo_env demo_env demo_state "alice\<lparr>Username := ''carol''\<rparr>"
        "alice\<lparr>Password := ''guess''\<rparr>" "''$2a$wonderland''"]
  by (simp add: demo_state_def demo_env_def alice_def WriteHeader_def)

subsection \<open>Signing up\<close>

text \<open>
  C9. \<open>signup\<close> leaves the session store as it found it, whatever it answers.
\<close>

theorem signup_frame_sessions: "sessions (snd (signup e body st)) = sessions st"
  by (simp add: signup_def split: option.split sum.split sql_error.split)

theorem signup_frame_sessions_witness:
  "status (fst (signup demo_env (Some (alice\<lparr>Username := ''carol'', InvitationCode := ''inv1''\<rparr>))
                  demo_state)) = StatusCreated
   \<and> sessions (snd (signup demo_env
                  (Some (alice\<lparr>Username := ''carol'', InvitationCode := ''inv1''\<rparr>)) demo_state))
       = sessions demo_state"
  using signup_frame_sessions
    [of demo_env "Some (alice\<lparr>Username := ''carol'', InvitationCode := ''inv1''\<rparr>)" demo_state]
  by (simp add: signup_def QueryRow_used_def hashPassword_def Exec_insert_user_def
      Exec_mark_used_def demo_env_def demo_state_def alice_def WriteHeader_def)

lemma signup_not_Created:
  assumes "status (fst (signup e body st)) \<noteq> StatusCreated"
  shows "invitation_codes (db (snd (signup e body st))) = invitation_codes (db st)"
  using assms
  by (auto simp: signup_def WriteHeader_def Exec_insert_user_def
      split: option.splits sum.splits sql_error.splits if_splits)

lemma signup_demo_taken:
  "signup demo_env (Some (alice\<lparr>InvitationCode := ''inv1''\<rparr>)) demo_state
     = (WriteHeader StatusInternalServerError, demo_state)"
  by (simp add: signup_def QueryRow_used_def hashPassword_def Exec_insert_user_def
      demo_env_def demo_state_def alice_def)

text \<open>
  C4. A signup is valid when the request decodes, the presented code is in
  \<open>invitation_codes\<close> and unused, the username is not taken, bcrypt delivers a hash and
  no database call fails. Such a signup answers Created, stores the user and leaves the
  code marked used; after it, any signup presenting the same code answers Unauthorized
  and changes nothing, and so does, in any state, a signup presenting a code that is not
  in the table (as long as the lookup of the code itself does not fail).
\<close>

theorem signup_consumes_invitation:
  assumes "invitation_codes (db st) (InvitationCode creds) = Some False"
      and "users (db st) (Username creds) = None"
      and "GenerateFromPassword e (Password creds) 14 = Some h"
      and "\<not> query_err e SelectUsed"
      and "\<not> prepare_err e InsertUser" and "\<not> exec_err e InsertUser"
      and "\<not> prepare_err e MarkUsed" and "\<not> exec_err e MarkUsed"
  shows "signup e (Some creds) st =
           (WriteHeader StatusCreated,
            st\<lparr>db := (db st)\<lparr>users := (users (db st))(Username creds \<mapsto> h),
                   invitation_codes := (invitation_codes (db st))(InvitationCode creds \<mapsto> True)\<rparr>\<rparr>)
       \<and> invitation_codes (db (snd (signup e (Some creds) st))) (InvitationCode creds) = Some True
       \<and> (\<forall>e' creds'. \<not> query_err e' SelectUsed \<and> InvitationCode creds' = InvitationCode creds \<longrightarrow>
            signup e' (Some creds') (snd (signup e (Some creds) st)) =
              (WriteHeader StatusUnauthorized, snd (signup e (Some creds) st)))
       \<and> (\<forall>e' creds' st'. \<not> query_err e' SelectUsed
              \<and> invitation_codes (db st') (InvitationCode creds') = None \<longrightarrow>
            signup e' (Some creds') st' = (WriteHeader StatusUnauthorized, st'))"
proof -
  let ?st1 = "snd (signup e (Some creds) st)"
  have 1: "signup e (Some creds) st =
           (WriteHeader StatusCreated,
            st\<lparr>db := (db st)\<lparr>users := (users (db st))(Username creds \<mapsto> h),
                   invitation_codes := (invitation_codes (db st))(InvitationCode creds \<mapsto> True)\<rparr>\<rparr>)"
    using assms
    by (simp add: signup_def QueryRow_used_def hashPassword_def Exec_insert_user_def
        Exec_mark_used_def)
  have 2: "invitation_codes (db ?st1) (InvitationCode creds) = Some True"
    by (simp add: 1)
  have 3: "\<forall>e' creds'. \<not> query_err e' SelectUsed \<and> InvitationCode creds' = InvitationCode creds \<longrightarrow>
            signup e' (Some creds') ?st1 = (WriteHeader StatusUnauthorized, ?st1)"
  proof (intro allI impI)
    fix e' :: env and creds' :: Credentials
    assume a: "\<not> query_err e' SelectUsed \<and> InvitationCode creds' = InvitationCode creds"
    with 2 have "QueryRow_used e' (db ?st1) (InvitationCode creds') = Inr True"
      by (simp add: QueryRow_used_def)
    then show "signup e' (Some creds') ?st1 = (WriteHeader StatusUnauthorized, ?st1)"
      by (simp add: signup_def)
  qed
  have 4: "\<forall>e' creds' st'. \<not> query_err e' SelectUsed
              \<and> invitation_codes (db st') (InvitationCode creds') = None \<longrightarrow>
            signup e' (Some creds') st' = (WriteHeader StatusUnauthorized, st')"
    by (simp add: signup_def QueryRow_used_def)
  from 1 2 3 4 show ?thesis
    by (intro conjI)
qed

theorem signup_consumes_invitation_witness:
  "invitation_codes (db demo_state) (InvitationCode carol) = Some False
   \<and> users (db demo_state) (Username carol) = None
   \<and> status (fst (signup demo_env (Some carol) demo_state)) = StatusCreated
   \<and> invitation_codes (db (snd (signup demo_env (Some carol) demo_state))) ''inv1'' = Some True
   \<and> status (fst (signup demo_env (Some (carol\<lparr>Username := ''dave''\<rparr>))
                  (snd (signup demo_env (Some carol) demo_state)))) = StatusUnauthorized
   \<and> status (fst (signup demo_env (Some (carol\<lparr>InvitationCode := ''nope''\<rparr>)) demo_state))
       = StatusUnauthorized"
proof -
  have h1: "invitation_codes (db demo_state) (InvitationCode carol) = Some False"
    by (simp add: demo_state_def carol_def)
  have h2: "users (db demo_state) (Username carol) = None"
    by (simp add: demo_state_def carol_def)
  have h3: "GenerateFromPassword demo_env (Password carol) 14 = Some ''$2a$secret''"
    by (simp add: demo_env_def carol_def)
  have q: "\<not> query_err demo_env SelectUsed"
    and f: "\<not> prepare_err demo_env InsertUser" "\<not> exec_err demo_env InsertUser"
      "\<not> prepare_err demo_env MarkUsed" "\<not> exec_err demo_env MarkUsed"
    by (simp_all add: demo_env_def)
  note T = signup_consumes_invitation [OF h1 h2 h3 q f]
  from T have c1: "status (fst (signup demo_env (Some carol) demo_state)) = StatusCreated"
    by (simp add: WriteHeader_def)
  from T have c2: "invitation_codes (db (snd (signup demo_env (Some carol) demo_state))) ''inv1''
      = Some True"
    by (simp add: carol_def)
  have d: "InvitationCode (carol\<lparr>Username := ''dave''\<rparr>) = InvitationCode carol"
    by simp
  from T have "signup demo_env (Some (carol\<lparr>Username := ''dave''\<rparr>))
      (snd (signup demo_env (Some carol) demo_state))
      = (WriteHeader StatusUnauthorized, snd (signup demo_env (Some carol) demo_state))"
    using q d by blast
  then have c3: "status (fst (signup demo_env (Some (carol\<lparr>Username := ''dave''\<rparr>))
                  (snd (signup demo_env (Some carol) demo_state)))) = StatusUnauthorized"
    by (simp add: WriteHeader_def)
  have n: "invitation_codes (db demo_state) (InvitationCode (carol\<lparr>InvitationCode := ''nope''\<rparr>))
      = None"
    by (simp add: demo_state_def)
  from T have "signup demo_env (Some (carol\<lparr>InvitationCode := ''nope''\<rparr>)) demo_state
      = (WriteHeader StatusUnauthorized, demo_state)"
    using q n by blast
  then have c4: "status (fst (signup demo_env (Some (carol\<lparr>InvitationCode := ''nope''\<rparr>))
                  demo_state)) = StatusUnauthorized"
    by (simp add: WriteHeader_def)
  from h1 h2 c1 c2 c3 c4 show ?thesis
    by (intro conjI)
qed

text \<open>
  C7 (amended). The claim: some signup execution fails at the insert of the user and
  has nevertheless consumed the invitation code. \<open>signup\<close> marks the code used only
  after the insert has succeeded, so nothing is there to roll back: when the insert fails
  (the username is taken, or the storage fails) the answer is Internal and the whole
  state, the code's \<open>used\<close> flag included, is as before; and every signup that does not
  answer Created leaves \<open>invitation_codes\<close> unchanged.
\<close>

theorem signup_failed_insert_keeps_code:
  assumes "invitation_codes (db st) (InvitationCode creds) = Some False"
      and "\<not> query_err e SelectUsed"
      and "hashPassword e (Password creds) = Some h"
      and "\<not> prepare_err e InsertUser"
      and "Exec_insert_user e (db st) (Username creds) h = Inl err"
  shows "signup e (Some creds) st = (WriteHeader StatusInternalServerError, st)
       \<and> invitation_codes (db (snd (signup e (Some creds) st))) (InvitationCode creds) = Some False
       \<and> (\<forall>e' body' st'. status (fst (signup e' body' st')) \<noteq> StatusCreated \<longrightarrow>
             invitation_codes (db (snd (signup e' body' st'))) = invitation_codes (db st'))"
proof -
  have 1: "signup e (Some creds) st = (WriteHeader StatusInternalServerError, st)"
    using assms by (simp add: signup_def QueryRow_used_def)
  have 2: "invitation_codes (db (snd (signup e (Some creds) st))) (InvitationCode creds) = Some False"
    using assms(1) by (simp add: 1)
  from 1 2 signup_not_Created show ?thesis
    by blast
qed

theorem signup_failed_insert_keeps_code_witness:
  "invitation_codes (db demo_state) ''inv1'' = Some False
   \<and> hashPassword demo_env ''wonderland'' = Some ''$2a$wonderland''
   \<and> Exec_insert_user demo_env (db demo_state) ''alice'' ''$2a$wonderland'' = Inl ErrStorage
   \<and> status (fst (signup demo_env (Some (alice\<lparr>InvitationCode := ''inv1''\<rparr>)) demo_state))
       = StatusInternalServerError
   \<and> invitation_codes (db (snd (signup demo_env (Some (alice\<lparr>InvitationCode := ''inv1''\<rparr>))
                                  demo_state))) ''inv1'' = Some False"
proof -
  let ?c = "alice\<lparr>InvitationCode := ''inv1''\<rparr>"
  have h1: "invitation_codes (db demo_state) (InvitationCode ?c) = Some False"
    by (simp add: demo_state_def)
  have q: "\<not> query_err demo_env SelectUsed" and p: "\<not> prepare_err demo_env InsertUser"
    by (simp_all add: demo_env_def)
  have h3: "hashPassword demo_env (Password ?c) = Some ''$2a$wonderland''"
    by (simp add: hashPassword_def demo_env_def alice_def)
  have h5: "Exec_insert_user demo_env (db demo_state) (Username ?c) ''$2a$wonderland''
      = Inl ErrStorage"
    by (simp add: Exec_insert_user_def demo_state_def alice_def)
  from signup_failed_insert_keeps_code [OF h1 q h3 p h5] h1 h3 h5 show ?thesis
    by (simp add: WriteHeader_def alice_def)
qed

theorem signup_burns_code_counterexample:
  "signup demo_env (Some (alice\<lparr>InvitationCode := ''inv1''\<rparr>)) demo_state
     = (WriteHeader StatusInternalServerError, demo_state)
   \<and> Exec_insert_user demo_env (db demo_state) ''alice'' ''$2a$wonderland'' = Inl ErrStorage
   \<and> invitation_codes (db demo_state) ''inv1'' = Some False
   \<and> \<not> (\<exists>e body st c. status (fst (signup e body st)) = StatusInternalServerError
          \<and> invitation_codes (db st) c = Some False
          \<and> invitation_codes (db (snd (signup e body st))) c = Some True)"
proof -
  have a: "Exec_insert_user demo_env (db demo_state) ''alice'' ''$2a$wonderland'' = Inl ErrStorage"
    by (simp add: Exec_insert_user_def demo_state_def)
  have b: "invitation_codes (db demo_state) ''inv1'' = Some False"
    by (simp add: demo_state_def)
  have c: "\<not> (\<exists>e body st c. status (fst (signup e body st)) = StatusInternalServerError
          \<and> invitation_codes (db st) c = Some False
          \<and> invitation_codes (db (snd (signup e body st))) c = Some True)"
  proof
    assume "\<exists>e body st c. status (fst (signup e body st)) = StatusInternalServerError
          \<and> invitation_codes (db st) c = Some False
          \<and> invitation_codes (db (snd (signup e body st))) c = Some True"
    then obtain e body st c
      where s: "status (fst (signup e body st)) = StatusInternalServerError"
        and u: "invitation_codes (db st) c = Some False"
        and v: "invitation_codes (db (snd (signup e body st))) c = Some True"
      by blast
    from s have "status (fst (signup e body st)) \<noteq> StatusCreated"
      by simp
    from signup_not_Created [OF this] u v show False
      by simp
  qed
  from signup_demo_taken a b c show ?thesis
    by (intro conjI)
qed

subsection \<open>Issuing invitation codes\<close>

lemma list16:
  assumes "length (src :: 'a list) = 16"
  obtains x0 x1 x2 x3 x4 x5 x6 x7 x8 x9 x10 x11 x12 x13 x14 x15
  where "src = [x0, x1, x2, x3, x4, x5, x6, x7, x8, x9, x10, x11, x12, x13, x14, x15]"
  using assms by (auto simp: eval_nat_numeral length_Suc_conv)

lemma EncodeToString_16:
  assumes "length src = 16" and "padChar enc = Some p" and "length (encode enc) = 64"
  shows "length (EncodeToString enc src) = 24
       \<and> drop 22 (EncodeToString enc src) = [p, p]
       \<and> set (take 22 (EncodeToString enc src)) \<subseteq> set (encode enc)"
proof -
  from assms(1) obtain x0 x1 x2 x3 x4 x5 x6 x7 x8 x9 x10 x11 x12 x13 x14 x15
    where src: "src = [x0, x1, x2, x3, x4, x5, x6, x7, x8, x9, x10, x11, x12, x13, x14, x15]"
    by (rule list16)
  show ?thesis
    unfolding src using assms(2)
    by (simp add: Let_def pad_def numeral_2_eq_2 sextet_in_alphabet [OF assms(3)])
qed

lemma generateInviteCode_OK:
  assumes "status (fst (generateInviteCode e st)) = StatusOK"
  shows "generateInviteCode e st =
     (\<lparr>status = StatusOK, set_cookie = None,
       json = Some [(''code'', EncodeToString URLEncoding (map (rand_stream e) [0..<16]))]\<rparr>,
      st\<lparr>db := (db st)\<lparr>invitation_codes := (invitation_codes (db st))
            (EncodeToString URLEncoding (map (rand_stream e) [0..<16]) \<mapsto> False)\<rparr>\<rparr>)"
  using assms
  by (auto simp: generateInviteCode_def rand_Read_def make_bytes_def Exec_insert_code_def
      WriteHeader_def Let_def split: if_splits)

lemma generateInviteCodeCLI_Inr:
  assumes "generateInviteCodeCLI e st = Inr (out, st')"
  shows "out = ''Invitation code: '' @ EncodeToString URLEncoding (map (rand_stream e) [0..<16])
                 @ [CHR 0x0A]
       \<and> st' = st\<lparr>db := (db st)\<lparr>invitation_codes := (invitation_codes (db st))
            (EncodeToString URLEncoding (map (rand_stream e) [0..<16]) \<mapsto> False)\<rparr>\<rparr>"
  using assms
  by (auto simp: generateInviteCodeCLI_def rand_Read_def make_bytes_def Exec_insert_code_def
      Let_def split: if_splits)

lemma demo_code:
  "EncodeToString URLEncoding (map (rand_stream demo_env) [0..<16]) = ''AAECAwQFBgcICQoLDA0ODw==''"
  by code_simp

lemma generateInviteCode_demo:
  "generateInviteCode demo_env demo_state =
     (\<lparr>status = StatusOK, set_cookie = None, json = Some [(''code'', ''AAECAwQFBgcICQoLDA0ODw=='')]\<rparr>,
      demo_state\<lparr>db := (db demo_state)\<lparr>invitation_codes :=
         (invitation_codes (db demo_state))(''AAECAwQFBgcICQoLDA0ODw=='' \<mapsto> False)\<rparr>\<rparr>)"
proof -
  have r: "rand_Read demo_env (make_bytes 16) = Some (map (rand_stream demo_env) [0..<16])"
    by (simp add: rand_Read_def make_bytes_def demo_env_def)
  have p: "\<not> prepare_err demo_env InsertCode" "\<not> exec_err demo_env InsertCode"
    by (simp_all add: demo_env_def)
  have f: "invitation_codes (db demo_state) ''AAECAwQFBgcICQoLDA0ODw=='' = None"
    by (simp add: demo_state_def)
  show ?thesis
    unfolding generateInviteCode_def r
    by (simp add: demo_code Exec_insert_code_def p f Let_def)
qed

text \<open>
  C8 (amended). The claim: an issued code is the URL-safe base64 encoding of 16 random
  bytes, a string of 22 characters, stored as unused. \<open>base64.URLEncoding\<close> pads: the
  code is the encoding of the 16 bytes \<open>rand.Read\<close> delivered and has 24 characters,
  22 of the URL-safe alphabet followed by \<open>==\<close>. Whenever the HTTP handler answers 200,
  and whenever the CLI command gets to print, that code is what is returned or printed
  and it is in \<open>invitation_codes\<close> with \<open>used\<close> false.
\<close>

theorem invite_code_shape:
  fixes e :: env and st :: state
  defines "code \<equiv> EncodeToString URLEncoding (map (rand_stream e) [0..<16])"
  shows "(status (fst (generateInviteCode e st)) = StatusOK \<longrightarrow>
            json (fst (generateInviteCode e st)) = Some [(''code'', code)]
          \<and> invitation_codes (db (snd (generateInviteCode e st))) code = Some False)
       \<and> (\<forall>out st'. generateInviteCodeCLI e st = Inr (out, st') \<longrightarrow>
            out = ''Invitation code: '' @ code @ [CHR 0x0A]
          \<and> invitation_codes (db st') code = Some False)
       \<and> length code = 24 \<and> drop 22 code = ''==''
       \<and> set (take 22 code) \<subseteq> set encodeURL"
proof -
  have shape: "length code = 24 \<and> drop 22 code = ''=='' \<and> set (take 22 code) \<subseteq> set encodeURL"
    using EncodeToString_16 [of "map (rand_stream e) [0..<16]" URLEncoding StdPadding]
    by (simp add: code_def URLEncoding_def StdPadding_def encodeURL_def)
  have http: "status (fst (generateInviteCode e st)) = StatusOK \<longrightarrow>
            json (fst (generateInviteCode e st)) = Some [(''code'', code)]
          \<and> invitation_codes (db (snd (generateInviteCode e st))) code = Some False"
  proof
    assume "status (fst (generateInviteCode e st)) = StatusOK"
    from generateInviteCode_OK [OF this]
    show "json (fst (generateInviteCode e st)) = Some [(''code'', code)]
          \<and> invitation_codes (db (snd (generateInviteCode e st))) code = Some False"
      by (simp add: code_def)
  qed
  have cli: "\<forall>out st'. generateInviteCodeCLI e st = Inr (out, st') \<longrightarrow>
            out = ''Invitation code: '' @ code @ [CHR 0x0A]
          \<and> invitation_codes (db st') code = Some False"
  proof (intro allI impI)
    fix out st'
    assume "generateInviteCodeCLI e st = Inr (out, st')"
    from generateInviteCodeCLI_Inr [OF this]
    show "out = ''Invitation code: '' @ code @ [CHR 0x0A]
          \<and> invitation_codes (db st') code = Some False"
      by (simp add: code_def)
  qed
  from shape http cli show ?thesis
    by blast
qed

theorem invite_code_shape_witness:
  "status (fst (generateInviteCode demo_env demo_state)) = StatusOK
   \<and> json (fst (generateInviteCode demo_env demo_state))
       = Some [(''code'', ''AAECAwQFBgcICQoLDA0ODw=='')]
   \<and> invitation_codes (db (snd (generateInviteCode demo_env demo_state)))
       ''AAECAwQFBgcICQoLDA0ODw=='' = Some False
   \<and> length ''AAECAwQFBgcICQoLDA0ODw=='' = 24"
  using invite_code_shape [of demo_env demo_state]
  unfolding demo_code
  by (simp add: generateInviteCode_demo)

theorem invite_code_shape_counterexample:
  "json (fst (generateInviteCode demo_env demo_state))
     = Some [(''code'', ''AAECAwQFBgcICQoLDA0ODw=='')]
   \<and> length ''AAECAwQFBgcICQoLDA0ODw=='' \<noteq> 22"
  by (simp add: generateInviteCode_demo)

end
